theory Spec2Isabelle
  imports Complex_Main "HOL-Library.AList"
begin

section \<open>Color math of the theme service\<close>

text \<open>
  The functions of \<^verbatim>\<open>src/gui/src/services/ThemeService.js\<close>. A JavaScript number is
  modelled as a \<^typ>\<open>real\<close>: arithmetic is exact, there is no NaN and no rounding of
  IEEE doubles, so a channel that is half-way between two integers in exact arithmetic may
  round the other way in the code. An RGB array \<^verbatim>\<open>[r, g, b]\<close> is a triple. \<^verbatim>\<open>Math.round\<close> rounds
  half-way cases towards plus infinity, which is \<^const>\<open>round\<close>
  (\<open>round x = \<lfloor>x + 1/2\<rfloor>\<close>).
\<close>

type_synonym rgb = "real \<times> real \<times> real"

definition Math_round :: "real \<Rightarrow> real" where
  "Math_round x = of_int (round x)"

text \<open>The helper \<^verbatim>\<open>hue2rgb\<close> of \<^verbatim>\<open>hslToRgb\<close>; its two adjustments of \<open>t\<close> run in sequence.\<close>

definition hue2rgb :: "real \<Rightarrow> real \<Rightarrow> real \<Rightarrow> real" where
  "hue2rgb p q t0 =
     (let t1 = (if t0 < 0 then t0 + 1 else t0);
          t = (if t1 > 1 then t1 - 1 else t1)
      in if t < 1/6 then p + (q - p) * 6 * t
         else if t < 1/2 then q
         else if t < 2/3 then p + (q - p) * (2/3 - t) * 6
         else p)"

definition hslToRgb :: "real \<Rightarrow> real \<Rightarrow> real \<Rightarrow> rgb" where
  "hslToRgb h0 s0 l0 =
     (let h = h0 / 360; s = s0 / 100; l = l0 / 100;
          (r, g, b) =
            (if s = 0 then (l, l, l)
             else
               let q = (if l < 0.5 then l * (1 + s) else l + s - l * s);
                   p = 2 * l - q
               in (hue2rgb p q (h + 1/3), hue2rgb p q h, hue2rgb p q (h - 1/3)))
      in (Math_round (r * 255), Math_round (g * 255), Math_round (b * 255)))"

text \<open>
  The function mapped over the channels in \<^verbatim>\<open>getLuminance\<close>. The power is taken only
  of a base above \<open>0.055 / 1.055\<close>, where \<^verbatim>\<open>Math.pow\<close> is \<open>powr\<close>.
\<close>

definition linear_channel :: "real \<Rightarrow> real" where
  "linear_channel v =
     (let val = v / 255
      in if val \<le> 0.03928 then val / 12.92 else ((val + 0.055) / 1.055) powr 2.4)"

definition getLuminance :: "rgb \<Rightarrow> real" where
  "getLuminance rgb =
     (case rgb of (r0, g0, b0) \<Rightarrow>
        let r = linear_channel r0; g = linear_channel g0; b = linear_channel b0
        in 0.2126 * r + 0.7152 * g + 0.0722 * b)"

text \<open>
  The divisor \<open>darker + 0.05\<close> is positive when no channel is negative, so the division
  is the one of JavaScript there.
\<close>

definition getContrastRatio :: "rgb \<Rightarrow> rgb \<Rightarrow> real" where
  "getContrastRatio rgb1 rgb2 =
     (let l1 = getLuminance rgb1;
          l2 = getLuminance rgb2;
          lighter = max l1 l2;
          darker = min l1 l2
      in (lighter + 0.05) / (darker + 0.05))"

text \<open>The local constant \<^verbatim>\<open>effectiveAlpha\<close> of \<^verbatim>\<open>blendWithWhite\<close>.\<close>

definition effectiveAlpha :: "real \<Rightarrow> real" where
  "effectiveAlpha alpha = 0.5 + 0.5 * alpha"

definition blendWithWhite :: "rgb \<Rightarrow> real \<Rightarrow> rgb" where
  "blendWithWhite rgb alpha =
     (case rgb of (r, g, b) \<Rightarrow>
        (Math_round (r * effectiveAlpha alpha + 255 * (1 - effectiveAlpha alpha)),
         Math_round (g * effectiveAlpha alpha + 255 * (1 - effectiveAlpha alpha)),
         Math_round (b * effectiveAlpha alpha + 255 * (1 - effectiveAlpha alpha))))"

definition black :: rgb where
  "black = (0, 0, 0)"

definition white :: rgb where
  "white = (255, 255, 255)"

definition getOptimalTextColor :: "rgb \<Rightarrow> string" where
  "getOptimalTextColor backgroundColor =
     (let blackContrast = getContrastRatio black backgroundColor;
          whiteContrast = getContrastRatio white backgroundColor
      in if blackContrast \<ge> whiteContrast then ''#000000'' else ''#ffffff'')"

section \<open>JavaScript values\<close>

text \<open>
  The descriptor \<^verbatim>\<open>this.state\<close>, the argument of \<^verbatim>\<open>apply\<close> and the result of
  \<^verbatim>\<open>JSON.parse\<close> are dynamically typed. An object is the list of its own properties in
  the order in which JavaScript enumerates them; the keys of a JavaScript object are
  distinct. A property value is never a function.
\<close>

datatype jsval =
    Undefined
  | JNull
  | JBool bool
  | JNum real
  | JStr string
  | JArr "jsval list"
  | JObj "(string \<times> jsval) list"

type_synonym obj = "(string \<times> jsval) list"

text \<open>Truthiness, as tested by \<^verbatim>\<open>if ( data )\<close>, \<^verbatim>\<open>&&\<close> and \<^verbatim>\<open>? :\<close>.\<close>

fun truthy :: "jsval \<Rightarrow> bool" where
  "truthy Undefined = False"
| "truthy JNull = False"
| "truthy (JBool b) = b"
| "truthy (JNum x) = (x \<noteq> 0)"
| "truthy (JStr s) = (s \<noteq> [])"
| "truthy (JArr xs) = True"
| "truthy (JObj kvs) = True"

text \<open>Property access \<^verbatim>\<open>o[key]\<close> on an object: a missing property reads as \<^verbatim>\<open>undefined\<close>.\<close>

definition field :: "obj \<Rightarrow> string \<Rightarrow> jsval" where
  "field kvs key = (case map_of kvs key of Some v \<Rightarrow> v | None \<Rightarrow> Undefined)"

text \<open>
  \<^verbatim>\<open>data.colors\<close> on a parsed value: only an object can own the property; primitives and
  arrays have no property of that name.
\<close>

definition member :: "jsval \<Rightarrow> string \<Rightarrow> jsval" where
  "member v key = (case v of JObj kvs \<Rightarrow> field kvs key | _ \<Rightarrow> Undefined)"

fun show_nat :: "nat \<Rightarrow> string" where
  "show_nat n =
     (if n < 10 then [char_of (48 + n)]
      else show_nat (n div 10) @ [char_of (48 + n mod 10)])"

text \<open>
  The own enumerable properties that a spread \<^verbatim>\<open>...v\<close> copies: those of an object, the
  indices of an array or of a string, none of any other value.
\<close>

definition own_props :: "jsval \<Rightarrow> obj" where
  "own_props v =
     (case v of
        JObj kvs \<Rightarrow> kvs
      | JArr xs \<Rightarrow> zip (map show_nat [0..<length xs]) xs
      | JStr s \<Rightarrow> zip (map show_nat [0..<length s]) (map (\<lambda>c. JStr [c]) s)
      | _ \<Rightarrow> [])"

text \<open>
  An array index is the decimal numeral, without leading zeros, of an integer below
  4294967295. JavaScript enumerates the properties of an object whose keys are array
  indices first, in ascending order, and then the others in the order of their creation.
\<close>

definition is_digit :: "char \<Rightarrow> bool" where
  "is_digit c \<longleftrightarrow> 48 \<le> (of_char c :: nat) \<and> (of_char c :: nat) \<le> 57"

definition parse_nat :: "string \<Rightarrow> nat" where
  "parse_nat k = foldl (\<lambda>n c. 10 * n + (of_char c - 48)) 0 k"

definition array_index :: "string \<Rightarrow> nat option" where
  "array_index k =
     (if k \<noteq> [] \<and> list_all is_digit k \<and> (if hd k = CHR ''0'' then k = ''0'' else True) \<and>
         parse_nat k < 4294967295
      then Some (parse_nat k) else None)"

text \<open>
  The assignment of a property whose key is the array index \<open>i\<close>: a key that exists keeps
  its place, a new one goes before the first key that is a larger index or no index.
\<close>

fun insert_index :: "nat \<Rightarrow> string \<Rightarrow> jsval \<Rightarrow> obj \<Rightarrow> obj" where
  "insert_index i k v [] = [(k, v)]"
| "insert_index i k v ((k', v') # kvs) =
     (if k = k' then (k, v) # kvs
      else case array_index k' of
             Some j \<Rightarrow> if i < j then (k, v) # (k', v') # kvs
                       else (k', v') # insert_index i k v kvs
           | None \<Rightarrow> (k, v) # (k', v') # kvs)"

text \<open>
  The assignment of a property: under any other key, one that exists keeps its place and a
  new one is appended.
\<close>

definition assign :: "string \<Rightarrow> jsval \<Rightarrow> obj \<Rightarrow> obj" where
  "assign k v kvs =
     (case array_index k of
        Some i \<Rightarrow> insert_index i k v kvs
      | None \<Rightarrow> AList.update k v kvs)"

text \<open>
  The object literal \<^verbatim>\<open>{ ...a, ...b }\<close>: the properties of \<open>b\<close> are assigned in order
  onto a copy of \<open>a\<close>.
\<close>

definition spread :: "obj \<Rightarrow> obj \<Rightarrow> obj" where
  "spread a b = fold (\<lambda>(k, v). assign k v) b a"

text \<open>
  Conversion to a primitive, as the string concatenation \<^verbatim>\<open>v + '%'\<close> and the string
  argument of \<^verbatim>\<open>setProperty\<close> need it. A primitive converts. An object with the
  properties listed converts by the inherited \<^verbatim>\<open>toString\<close>, unless it has a property
  \<^verbatim>\<open>toString\<close> of its own, which is no function: then a \<^verbatim>\<open>TypeError\<close> is thrown. An
  array converts by joining the conversions of its elements.
\<close>

fun convertible :: "jsval \<Rightarrow> bool" where
  "convertible (JObj kvs) = (map_of kvs ''toString'' = None)"
| "convertible (JArr xs) = list_all convertible xs"
| "convertible _ = True"

section \<open>The world of the theme service\<close>

datatype js_error = Error (code: "string option") (message: string)

text \<open>
  The text handed to \<^verbatim>\<open>puter.fs.write\<close> is kept as the call that produces it:
  \<^verbatim>\<open>JSON.stringify(value, undefined, indent)\<close>.
\<close>

datatype json_text = JSON_stringify jsval nat

text \<open>
  A value set on the rendering surface or sent in the broadcast: a value of the descriptor
  as it is, the string \<^verbatim>\<open>v + '%'\<close>, or the sidebar color that the pipeline yields after
  JavaScript's coercion of descriptor fields that are not numbers.
\<close>

datatype cssval =
    Val jsval
  | Percent jsval
  | Coerced jsval jsval jsval jsval

datatype event =
    SetProperty string cssval
  | ConsoleLog string cssval
  | ConsoleError js_error
  | SendBroadcast string "(string \<times> cssval) list" bool
  | UIAlert string string
  | FsWrite string json_text
  | FsDelete string
  | Throw_TypeError

text \<open>
  \<open>Throw_TypeError\<close> is the last effect of a call that ends by throwing to its caller.
\<close>

text \<open>
  The methods \<^verbatim>\<open>reload_\<close>, \<^verbatim>\<open>save_\<close>, \<^verbatim>\<open>commit_save_\<close> and the field
  \<^verbatim>\<open>save_cooldown_\<close> are written without the final underscore, and \<^verbatim>\<open>apply\<close> is
  \<open>apply_values\<close>.

  The service object (\<open>state\<close>, \<open>save_cooldown\<close>) together with what it acts on: a
  clock in milliseconds, the pending timers (handle and due time; every callback is
  \<^verbatim>\<open>() => this.commit_save_()\<close>), the next timer handle, and the effects issued so far.
\<close>

record world =
  state :: obj
  save_cooldown :: "nat option"
  now :: nat
  timers :: "(nat \<times> nat) list"
  next_timer :: nat
  effects :: "event list"

definition PUTER_THEME_DATA_FILENAME :: string where
  "PUTER_THEME_DATA_FILENAME = ''~/.__puter_gui.json''"

definition SAVE_COOLDOWN_TIME :: nat where
  "SAVE_COOLDOWN_TIME = 1000"

definition default_values :: obj where
  "default_values =
     [(''sat'', JNum 41.18),
      (''hue'', JNum 210),
      (''lig'', JNum 93.33),
      (''alpha'', JNum 0.8),
      (''light_text'', JBool False)]"

definition emit :: "event list \<Rightarrow> world \<Rightarrow> world" where
  "emit es w = w\<lparr>effects := effects w @ es\<rparr>"

text \<open>
  \<^verbatim>\<open>setTimeout\<close> returns a fresh handle; \<^verbatim>\<open>clearTimeout\<close> drops the timer of that
  handle, if it is still pending.
\<close>

definition setTimeout :: "nat \<Rightarrow> world \<Rightarrow> nat \<times> world" where
  "setTimeout delay w =
     (next_timer w,
      w\<lparr>timers := timers w @ [(next_timer w, now w + delay)],
        next_timer := Suc (next_timer w)\<rparr>)"

definition clearTimeout :: "nat \<Rightarrow> world \<Rightarrow> world" where
  "clearTimeout h w = w\<lparr>timers := filter (\<lambda>(i, due). i \<noteq> h) (timers w)\<rparr>"

text \<open>
  The sidebar pipeline of \<^verbatim>\<open>reload_\<close>. On numbers it is the color math above; on other
  values JavaScript coerces, which is left symbolic. The color is the one of exact
  arithmetic: where a channel is half-way between two integers, the doubles of the code
  may round the other way and choose the other color. It runs after the four fields have been
  converted to strings without a throw, and on such values no step of it throws: the
  \<^verbatim>\<open>catch\<close> around it has no branch here.
\<close>

definition sidebarTextColor :: "obj \<Rightarrow> cssval" where
  "sidebarTextColor s =
     (case (field s ''hue'', field s ''sat'', field s ''lig'', field s ''alpha'') of
        (JNum h, JNum sa, JNum l, JNum a) \<Rightarrow>
          (let sidebarRgb = hslToRgb h sa l;
               blendedSidebarRgb = blendWithWhite sidebarRgb a
           in Val (JStr (getOptimalTextColor blendedSidebarRgb)))
      | (h, sa, l, a) \<Rightarrow> Coerced h sa l a)"

definition primaryColor :: "obj \<Rightarrow> cssval" where
  "primaryColor s = Val (JStr (if truthy (field s ''light_text'') then ''white'' else ''#373e44''))"

text \<open>
  The render pass \<^verbatim>\<open>reload_\<close>. Its first four statements convert \<^verbatim>\<open>s.hue\<close>,
  \<^verbatim>\<open>s.sat\<close>, \<^verbatim>\<open>s.lig\<close> and \<^verbatim>\<open>s.alpha\<close> to strings outside of any \<^verbatim>\<open>try\<close>: the
  first that does not convert throws, after the effects of the statements before it.
\<close>

definition reload_events :: "obj \<Rightarrow> event list" where
  "reload_events s =
     (if convertible (field s ''hue'') then
        SetProperty ''--primary-hue'' (Val (field s ''hue'')) #
        (if convertible (field s ''sat'') then
           SetProperty ''--primary-saturation'' (Percent (field s ''sat'')) #
           (if convertible (field s ''lig'') then
              SetProperty ''--primary-lightness'' (Percent (field s ''lig'')) #
              (if convertible (field s ''alpha'') then
                 [SetProperty ''--primary-alpha'' (Val (field s ''alpha'')),
                  SetProperty ''--primary-color'' (primaryColor s),
                  SetProperty ''--window-sidebar-title-color'' (sidebarTextColor s),
                  SetProperty ''--window-sidebar-item-color'' (sidebarTextColor s),
                  ConsoleLog ''[ThemeService] Sidebar text colors set to:'' (sidebarTextColor s),
                  SendBroadcast ''themeChanged''
                    [(''primaryHue'', Val (field s ''hue'')),
                     (''primarySaturation'', Percent (field s ''sat'')),
                     (''primaryLightness'', Percent (field s ''lig'')),
                     (''primaryAlpha'', Val (field s ''alpha'')),
                     (''primaryColor'', primaryColor s)]
                    True]
               else [Throw_TypeError])
            else [Throw_TypeError])
         else [Throw_TypeError])
      else [Throw_TypeError])"

text \<open>The render pass returns when the four fields convert, and throws otherwise.\<close>

definition renders :: "obj \<Rightarrow> bool" where
  "renders s \<longleftrightarrow>
     convertible (field s ''hue'') \<and> convertible (field s ''sat'') \<and>
     convertible (field s ''lig'') \<and> convertible (field s ''alpha'')"

datatype 'a completion = Normal 'a | Abrupt 'a

definition reload :: "world \<Rightarrow> world completion" where
  "reload w =
     (if renders (state w) then Normal (emit (reload_events (state w)) w)
      else Abrupt (emit (reload_events (state w)) w))"

definition commit_save :: "world \<Rightarrow> world" where
  "commit_save w =
     emit [FsWrite PUTER_THEME_DATA_FILENAME
             (JSON_stringify (JObj [(''colors'', JObj (state w))]) 5)] w"

text \<open>A timer handle is a number; \<^verbatim>\<open>if ( this.save_cooldown_ )\<close> tests that it is not 0.\<close>

definition save :: "world \<Rightarrow> world" where
  "save w =
     (let w1 = (case save_cooldown w of
                  Some h \<Rightarrow> if h \<noteq> 0 then clearTimeout h w else w
                | None \<Rightarrow> w);
          (h, w2) = setTimeout SAVE_COOLDOWN_TIME w1
      in w2\<lparr>save_cooldown := Some h\<rparr>)"

text \<open>
  \<^verbatim>\<open>reset\<close> and \<^verbatim>\<open>apply\<close> assign the state and run the render pass; when it throws, the
  call ends there, before the deletion or the save.
\<close>

definition reset :: "world \<Rightarrow> world" where
  "reset w =
     (case reload (w\<lparr>state := default_values\<rparr>) of
        Normal w1 \<Rightarrow> emit [FsDelete PUTER_THEME_DATA_FILENAME] w1
      | Abrupt w1 \<Rightarrow> w1)"

definition apply_values :: "jsval \<Rightarrow> world \<Rightarrow> world" where
  "apply_values values w =
     (case reload (w\<lparr>state := spread (state w) (own_props values)\<rparr>) of
        Normal w1 \<Rightarrow> save w1
      | Abrupt w1 \<Rightarrow> w1)"

definition get :: "string \<Rightarrow> world \<Rightarrow> jsval" where
  "get key w = field (state w) key"

text \<open>
  Time passing by \<open>d\<close> milliseconds with no call into the service: the timers due by then
  fire in the order of their due times, the others stay pending.
\<close>

definition advance :: "nat \<Rightarrow> world \<Rightarrow> world" where
  "advance d w =
     (let t = now w + d;
          due = filter (\<lambda>(i, due_at). due_at \<le> t) (timers w);
          rest = filter (\<lambda>(i, due_at). \<not> due_at \<le> t) (timers w)
      in fold (\<lambda>_. commit_save) (sort_key snd due) (w\<lparr>now := t, timers := rest\<rparr>))"

section \<open>Initialization\<close>

text \<open>
  What \<^verbatim>\<open>puter.fs.read\<close> resolves to: an object (a Blob, whose \<^verbatim>\<open>text()\<close> rejects or
  resolves to a string) or a string, used as it is. The promise itself may reject with an
  error. \<^verbatim>\<open>JSON.parse\<close> belongs to the platform and is a parameter of \<open>init\<close>: it
  throws an error or returns a value.
\<close>

datatype fs_data = Blob "js_error + string" | Str string

text \<open>
  The variable \<^verbatim>\<open>data\<close> after the first \<^verbatim>\<open>try\<close>: still \<^verbatim>\<open>undefined\<close>, a string, or
  the Blob itself when its \<^verbatim>\<open>text()\<close> rejected after the assignment.
\<close>

datatype read_data = NoData | StringData string | BlobData

text \<open>
  The text that reaches \<^verbatim>\<open>JSON.parse\<close>: \<^verbatim>\<open>data.toString()\<close> when \<^verbatim>\<open>data\<close> is truthy.
  \<^verbatim>\<open>undefined\<close> and the empty string are falsy, so nothing is parsed for them.
\<close>

fun data_text :: "read_data \<Rightarrow> string option" where
  "data_text NoData = None"
| "data_text (StringData s) = (if s \<noteq> [] then Some s else None)"
| "data_text BlobData = Some ''[object Blob]''"

text \<open>The \<^verbatim>\<open>catch\<close> of the read: every error but the not-found one is logged.\<close>

definition read_catch :: "js_error \<Rightarrow> event list" where
  "read_catch e =
     (if code e \<noteq> Some ''subject_does_not_exist'' then [ConsoleError e] else [])"

definition parse_alert :: "js_error \<Rightarrow> event" where
  \<open>parse_alert e =
     UIAlert ''Error loading theme data''
       (''Could not parse "'' @ PUTER_THEME_DATA_FILENAME @ ''": '' @ message e)\<close>

text \<open>
  \<^verbatim>\<open>_init\<close>, run on a fresh service: no timer is pending and the first handle that
  \<^verbatim>\<open>setTimeout\<close> will return is positive. The body runs without another call into the
  service in between. Where nothing is parsed, \<^verbatim>\<open>data\<close> stays falsy (\<^verbatim>\<open>undefined\<close> or
  the empty string), which \<open>Undefined\<close> stands for in the test \<^verbatim>\<open>data && data.colors\<close>.
\<close>

definition init :: "(string \<Rightarrow> js_error + jsval) \<Rightarrow> js_error + fs_data \<Rightarrow> world" where
  "init JSON_parse read_result =
     (let w0 = \<lparr>state =
                  [(''sat'', JNum 41.18),
                   (''hue'', JNum 210),
                   (''lig'', JNum 93.33),
                   (''alpha'', JNum 0.8),
                   (''light_text'', JBool False)],
                save_cooldown = None, now = 0, timers = [], next_timer = 1, effects = []\<rparr>;
          (data1, log1) =
            (case read_result of
               Inl e \<Rightarrow> (NoData, read_catch e)
             | Inr (Str s) \<Rightarrow> (StringData s, [])
             | Inr (Blob (Inr s)) \<Rightarrow> (StringData s, [])
             | Inr (Blob (Inl e)) \<Rightarrow> (BlobData, read_catch e));
          (data2, log2) =
            (case data_text data1 of
               Some txt \<Rightarrow>
                 (case JSON_parse txt of
                    Inr v \<Rightarrow> (v, [])
                  | Inl e \<Rightarrow> (Undefined, [ConsoleError e, parse_alert e]))
             | None \<Rightarrow> (Undefined, []));
          w1 = emit (log1 @ log2) w0;
          w2 = (if truthy data2 \<and> truthy (member data2 ''colors'')
                then w1\<lparr>state := spread (state w1) (own_props (member data2 ''colors''))\<rparr>
                else w1)
      in case reload w2 of Normal w3 \<Rightarrow> w3 | Abrupt w3 \<Rightarrow> w3)"

section \<open>Observations on worlds and effects\<close>

text \<open>
  The invariant of the timers: a pending timer is the one whose handle the service holds,
  and handles are positive.
\<close>

definition world_inv :: "world \<Rightarrow> bool" where
  "world_inv w \<longleftrightarrow>
     0 < next_timer w \<and>
     (\<forall>(i, due) \<in> set (timers w). save_cooldown w = Some i \<and> 0 < i)"

fun is_write :: "event \<Rightarrow> bool" where
  "is_write (FsWrite path content) = True"
| "is_write _ = False"

fun is_alert :: "event \<Rightarrow> bool" where
  "is_alert (UIAlert title msg) = True"
| "is_alert _ = False"

text \<open>The effects issued between an earlier world and a later one.\<close>

definition effects_since :: "world \<Rightarrow> world \<Rightarrow> event list" where
  "effects_since w w' = drop (length (effects w)) (effects w')"

text \<open>
  The persisted record under \<^verbatim>\<open>PUTER_THEME_DATA_FILENAME\<close> after the store has carried
  out the requests of a list of effects, in the order in which they were issued.
\<close>

fun fs_step :: "event \<Rightarrow> json_text option \<Rightarrow> json_text option" where
  "fs_step (FsWrite path content) rec =
     (if path = PUTER_THEME_DATA_FILENAME then Some content else rec)"
| "fs_step (FsDelete path) rec =
     (if path = PUTER_THEME_DATA_FILENAME then None else rec)"
| "fs_step _ rec = rec"

definition persisted :: "event list \<Rightarrow> json_text option \<Rightarrow> json_text option" where
  "persisted es rec = fold fs_step es rec"

text \<open>
  The worlds that the service can be in: \<^verbatim>\<open>_init\<close> once, then calls of \<^verbatim>\<open>apply\<close> and
  \<^verbatim>\<open>reset\<close> with time passing in between.
\<close>

inductive reachable :: "world \<Rightarrow> bool" where
  reachable_init: "reachable (init JSON_parse read_result)"
| reachable_apply: "reachable w \<Longrightarrow> reachable (apply_values v w)"
| reachable_reset: "reachable w \<Longrightarrow> reachable (reset w)"
| reachable_advance: "reachable w \<Longrightarrow> reachable (advance d w)"

text \<open>The world after \<^verbatim>\<open>_init\<close> when no theme file exists: the read rejects as not found.\<close>

definition fresh_world :: world where
  "fresh_world =
     init (\<lambda>s. Inl (Error None ''unused''))
       (Inl (Error (Some ''subject_does_not_exist'') ''not found''))"

section \<open>Properties of the color math\<close>

lemma linear_channel_0: "linear_channel 0 = 0"
  by (simp add: linear_channel_def)

lemma linear_channel_255: "linear_channel 255 = 1"
  by (simp add: linear_channel_def)

lemma getLuminance_black: "getLuminance black = 0"
  by (simp add: getLuminance_def black_def linear_channel_0)

lemma getLuminance_white: "getLuminance white = 1"
  by (simp add: getLuminance_def white_def linear_channel_255)

lemma linear_channel_nonneg: "0 \<le> v \<Longrightarrow> 0 \<le> linear_channel v"
  by (simp add: linear_channel_def Let_def)

lemma getLuminance_nonneg:
  "0 \<le> r \<Longrightarrow> 0 \<le> g \<Longrightarrow> 0 \<le> b \<Longrightarrow> 0 \<le> getLuminance (r, g, b)"
  by (simp add: getLuminance_def Let_def linear_channel_nonneg)

text \<open>
  C9. \<^verbatim>\<open>getContrastRatio\<close> is symmetric: for all RGB triples \<open>a\<close> and \<open>b\<close>,
  \<^verbatim>\<open>getContrastRatio(a, b)\<close> equals \<^verbatim>\<open>getContrastRatio(b, a)\<close>.
\<close>

theorem getContrastRatio_symmetric:
  "getContrastRatio a b = getContrastRatio b a"
  by (simp add: getContrastRatio_def Let_def max.commute min.commute)

text \<open>
  C10. The contrast ratio of pure black against pure black is exactly 1, and that of pure
  black against pure white is exactly 21.
\<close>

theorem getContrastRatio_bounds_exact:
  "getContrastRatio black black = 1 \<and> getContrastRatio black white = 21"
  by (simp add: getContrastRatio_def Let_def getLuminance_black getLuminance_white)

text \<open>
  C6. For every background, \<^verbatim>\<open>getOptimalTextColor\<close> returns pure black or pure white and
  nothing else: black exactly when the contrast ratio of the background against black is at
  least the one against white (so a tie gives black), white exactly when the ratio against
  white is strictly higher.
\<close>

theorem getOptimalTextColor_black_or_white:
  "(getOptimalTextColor bg = ''#000000'' \<or> getOptimalTextColor bg = ''#ffffff'') \<and>
   (getOptimalTextColor bg = ''#000000'' \<longleftrightarrow>
      getContrastRatio white bg \<le> getContrastRatio black bg) \<and>
   (getOptimalTextColor bg = ''#ffffff'' \<longleftrightarrow>
      getContrastRatio black bg < getContrastRatio white bg)"
  by (simp add: getOptimalTextColor_def Let_def not_le)

text \<open>On pure black the text is white, on pure white it is black.\<close>

lemma getOptimalTextColor_on_black: "getOptimalTextColor black = ''#ffffff''"
  by (simp add: getOptimalTextColor_def Let_def getContrastRatio_def
      getLuminance_black getLuminance_white)

lemma getOptimalTextColor_on_white: "getOptimalTextColor white = ''#000000''"
  by (simp add: getOptimalTextColor_def Let_def getContrastRatio_def
      getLuminance_black getLuminance_white)

text \<open>Half-way towards white, on an integer channel, in integer arithmetic.\<close>

lemma Math_round_half_blend:
  "Math_round (of_int r * 0.5 + 255 * 0.5) = of_int ((r + 256) div 2)"
proof -
  have "round (of_int r * 0.5 + 255 * 0.5 :: real) = \<lfloor>(of_int (r + 256) :: real) / 2\<rfloor>"
    by (simp add: round_def field_simps)
  also have "\<dots> = (r + 256) div 2"
    by (metis floor_divide_of_int_eq of_int_numeral)
  finally show ?thesis by (simp add: Math_round_def)
qed

lemma blendWithWhite_0:
  "blendWithWhite (of_int r, of_int g, of_int b) 0 =
     (Math_round (of_int r * 0.5 + 255 * 0.5),
      Math_round (of_int g * 0.5 + 255 * 0.5),
      Math_round (of_int b * 0.5 + 255 * 0.5))"
  by (simp add: blendWithWhite_def effectiveAlpha_def)

lemma blendWithWhite_0_div:
  "blendWithWhite (of_int r, of_int g, of_int b) 0 =
     (of_int ((r + 256) div 2), of_int ((g + 256) div 2), of_int ((b + 256) div 2))"
  by (simp only: blendWithWhite_0 Math_round_half_blend)

text \<open>
  C8. For every RGB triple of integer channels in \<open>[0, 255]\<close>, \<^verbatim>\<open>blendWithWhite(rgb, 1)\<close>
  returns \<open>rgb\<close> unchanged, and \<^verbatim>\<open>blendWithWhite(rgb, 0)\<close> returns the blend half-way
  towards white, each channel rounded from \<open>channel * 0.5 + 255 * 0.5\<close>, and not the
  pure white that an alpha of 0 would give: the effective alpha at 0 is 0.5, and for an
  alpha that is not negative the effective alpha \<open>0.5 + 0.5 * alpha\<close> is at least 0.5.
\<close>

theorem blendWithWhite_endpoints:
  fixes r g b :: int
  assumes "0 \<le> r \<and> r \<le> 255" and "0 \<le> g \<and> g \<le> 255" and "0 \<le> b \<and> b \<le> 255"
  shows "blendWithWhite (of_int r, of_int g, of_int b) 1 = (of_int r, of_int g, of_int b) \<and>
         blendWithWhite (of_int r, of_int g, of_int b) 0 =
           (Math_round (of_int r * 0.5 + 255 * 0.5),
            Math_round (of_int g * 0.5 + 255 * 0.5),
            Math_round (of_int b * 0.5 + 255 * 0.5)) \<and>
         effectiveAlpha 1 = 1 \<and> effectiveAlpha 0 = 0.5 \<and>
         (0 \<le> alpha \<longrightarrow> 0.5 \<le> effectiveAlpha alpha)"
proof -
  have one: "blendWithWhite (of_int r, of_int g, of_int b) 1 = (of_int r, of_int g, of_int b)"
    by (simp add: blendWithWhite_def effectiveAlpha_def Math_round_def)
  have ea: "effectiveAlpha 1 = 1 \<and> effectiveAlpha 0 = 0.5 \<and>
      (0 \<le> alpha \<longrightarrow> 0.5 \<le> effectiveAlpha alpha)"
    by (simp add: effectiveAlpha_def)
  from one blendWithWhite_0 ea show ?thesis
    by blast
qed

text \<open>At the channels 10, 20 and 30 the two blends are the triple itself and (133, 138, 143).\<close>

theorem blendWithWhite_endpoints_witness:
  "blendWithWhite (10, 20, 30) 1 = (10, 20, 30) \<and>
   blendWithWhite (10, 20, 30) 0 = (133, 138, 143) \<and>
   0.5 \<le> effectiveAlpha 0"
  using blendWithWhite_endpoints [of 10 20 30 0] blendWithWhite_0_div [of 10 20 30]
  by simp

text \<open>
  The blend at alpha 0 of a triple of integer channels in \<open>[0, 255]\<close> is pure white only
  when every channel is at least 254.
\<close>

lemma blendWithWhite_0_white_iff:
  fixes r g b :: int
  assumes "0 \<le> r \<and> r \<le> 255" and "0 \<le> g \<and> g \<le> 255" and "0 \<le> b \<and> b \<le> 255"
  shows "blendWithWhite (of_int r, of_int g, of_int b) 0 = white \<longleftrightarrow>
     254 \<le> r \<and> 254 \<le> g \<and> 254 \<le> b"
proof -
  have chan: "(x + 256) div 2 = 255 \<longleftrightarrow> 254 \<le> x"
    if "0 \<le> x \<and> x \<le> 255" for x :: int
    using that by presburger
  show ?thesis
    by (simp add: blendWithWhite_0_div white_def
        chan [OF assms(1)] chan [OF assms(2)] chan [OF assms(3)])
qed

section \<open>Properties of objects\<close>

lemma map_of_insert_index: "map_of (insert_index i k v kvs) = (map_of kvs)(k \<mapsto> v)"
  by (induction kvs) (auto simp: fun_eq_iff split: option.splits)

lemma map_of_assign: "map_of (assign k v kvs) = (map_of kvs)(k \<mapsto> v)"
  by (simp add: assign_def map_of_insert_index update_conv' split: option.splits)

lemma map_of_spread:
  "distinct (map fst b) \<Longrightarrow> map_of (spread a b) = map_of a ++ map_of b"
proof (induction b arbitrary: a)
  case Nil
  then show ?case by (simp add: spread_def)
next
  case (Cons x xs)
  obtain k v where x: "x = (k, v)" by (cases x)
  from Cons.prems x have k: "k \<notin> fst ` set xs" and d: "distinct (map fst xs)" by auto
  have "map_of (spread a (x # xs)) = map_of (spread (assign k v a) xs)"
    by (simp add: spread_def x)
  also have "\<dots> = (map_of a)(k \<mapsto> v) ++ map_of xs"
    by (simp only: Cons.IH [OF d] map_of_assign)
  also have "\<dots> = map_of a ++ map_of (x # xs)"
  proof -
    have "map_of xs k = None" using k by (simp add: map_of_eq_None_iff)
    then show ?thesis
      by (auto simp: x map_add_def fun_eq_iff split: option.splits)
  qed
  finally show ?case .
qed

text \<open>A key that does not start with a digit is no array index.\<close>

lemma array_index_no_digit: "\<not> is_digit c \<Longrightarrow> array_index (c # cs) = None"
  by (simp add: array_index_def)

lemma spread_single_no_index:
  "\<not> is_digit c \<Longrightarrow> spread a [(c # cs, v)] = AList.update (c # cs) v a"
  by (simp add: spread_def assign_def array_index_no_digit)

lemma field_spread:
  "distinct (map fst b) \<Longrightarrow>
   field (spread a b) key = (case map_of b key of Some v \<Rightarrow> v | None \<Rightarrow> field a key)"
  by (simp add: field_def map_of_spread map_add_def split: option.splits)

lemma field_spread_single:
  "field (spread a [(k, v)]) key = (if key = k then v else field a key)"
  by (simp add: field_spread)

section \<open>Properties of the service\<close>

subsection \<open>Effects of the render pass\<close>

lemma reload_events_no_write: "filter is_write (reload_events s) = []"
  by (simp add: reload_events_def)

lemma reload_events_no_alert: "filter is_alert (reload_events s) = []"
  by (simp add: reload_events_def)

lemma persisted_reload_events: "persisted (reload_events s) rec = rec"
  by (simp add: persisted_def reload_events_def)

lemma persisted_append: "persisted (xs @ ys) rec = persisted ys (persisted xs rec)"
  by (simp add: persisted_def)

lemma renders_default_values: "renders default_values"
  by (simp add: renders_def field_def default_values_def)

text \<open>A descriptor whose four numeric fields are numbers renders.\<close>

lemma renders_numbers:
  "field s ''hue'' = JNum h \<Longrightarrow> field s ''sat'' = JNum sa \<Longrightarrow> field s ''lig'' = JNum l \<Longrightarrow>
   field s ''alpha'' = JNum a \<Longrightarrow> renders s"
  by (simp add: renders_def)

lemma reload_returns:
  "renders (state w) \<Longrightarrow> reload w = Normal (emit (reload_events (state w)) w)"
  by (simp add: reload_def)

lemma reload_throws:
  "\<not> renders (state w) \<Longrightarrow> reload w = Abrupt (emit (reload_events (state w)) w)"
  by (simp add: reload_def)

text \<open>A render pass that throws ends with the throw, one that returns has none.\<close>

lemma reload_events_throw:
  "Throw_TypeError \<in> set (reload_events s) \<longleftrightarrow> \<not> renders s"
  by (simp add: reload_events_def renders_def)

text \<open>An object with a property \<^verbatim>\<open>toString\<close> of its own does not convert.\<close>

lemma not_renders_example:
  "\<not> renders (spread default_values [(''sat'', JObj [(''toString'', JNum 5)])])"
proof -
  have "\<not> is_digit CHR ''s''" by (simp add: is_digit_def)
  then show ?thesis
    by (simp add: spread_single_no_index renders_def field_def default_values_def)
qed

subsection \<open>What \<open>init\<close> returns\<close>

lemma reload_world:
  "(case reload w of Normal w' \<Rightarrow> w' | Abrupt w' \<Rightarrow> w') = emit (reload_events (state w)) w"
  by (simp add: reload_def)

lemma init_read_rejected:
  "init JSON_parse (Inl e) =
     \<lparr>state = default_values, save_cooldown = None, now = 0, timers = [], next_timer = 1,
      effects = read_catch e @ reload_events default_values\<rparr>"
  by (simp add: init_def Let_def reload_world emit_def default_values_def)

lemma init_parse_failed:
  assumes "read_result = Inr (Str s) \<or> read_result = Inr (Blob (Inr s))" and "s \<noteq> []"
    and "JSON_parse s = Inl e"
  shows "init JSON_parse read_result =
     \<lparr>state = default_values, save_cooldown = None, now = 0, timers = [], next_timer = 1,
      effects = [ConsoleError e, parse_alert e] @ reload_events default_values\<rparr>"
  using assms by (auto simp: init_def Let_def reload_world emit_def default_values_def)

lemma init_parsed:
  assumes "read_result = Inr (Str s) \<or> read_result = Inr (Blob (Inr s))" and "s \<noteq> []"
    and "JSON_parse s = Inr data"
  shows "init JSON_parse read_result =
     (let st = (if truthy data \<and> truthy (member data ''colors'')
                then spread default_values (own_props (member data ''colors''))
                else default_values)
      in \<lparr>state = st, save_cooldown = None, now = 0, timers = [], next_timer = 1,
          effects = reload_events st\<rparr>)"
  using assms by (auto simp: init_def Let_def reload_world emit_def default_values_def)

text \<open>An empty persisted text is not parsed: the defaults are rendered, nothing else.\<close>

lemma init_empty_text:
  "init JSON_parse (Inr (Str [])) =
     \<lparr>state = default_values, save_cooldown = None, now = 0, timers = [], next_timer = 1,
      effects = reload_events default_values\<rparr>"
  by (simp add: init_def Let_def reload_world emit_def default_values_def)

text \<open>
  A Blob whose \<^verbatim>\<open>text()\<close> rejects is still the value of \<^verbatim>\<open>data\<close>: its string form goes
  to \<^verbatim>\<open>JSON.parse\<close>.
\<close>

lemma init_blob_text_rejected:
  assumes "JSON_parse ''[object Blob]'' = Inl e2"
  shows "init JSON_parse (Inr (Blob (Inl e))) =
     \<lparr>state = default_values, save_cooldown = None, now = 0, timers = [], next_timer = 1,
      effects = read_catch e @ [ConsoleError e2, parse_alert e2] @
        reload_events default_values\<rparr>"
  using assms by (simp add: init_def Let_def reload_world emit_def default_values_def)

lemma state_init_not_found:
  "code e = Some ''subject_does_not_exist'' \<Longrightarrow> state (init JSON_parse (Inl e)) = default_values"
  by (simp add: init_read_rejected)

lemma state_fresh_world: "state fresh_world = default_values"
  by (simp add: fresh_world_def state_init_not_found)

subsection \<open>The invariant of the timers\<close>

lemma world_inv_init: "world_inv (init JSON_parse read_result)"
  by (simp add: init_def Let_def world_inv_def reload_world emit_def split: prod.splits)

lemma world_inv_fresh_world: "world_inv fresh_world"
  unfolding fresh_world_def by (rule world_inv_init)

text \<open>
  One call of \<^verbatim>\<open>apply\<close> whose render pass returns: whatever was pending is cleared and
  one new timer is set.
\<close>

lemma apply_values_step:
  assumes "world_inv w" and "renders (spread (state w) (own_props v))"
  shows "apply_values v w =
     w\<lparr>state := spread (state w) (own_props v),
       effects := effects w @ reload_events (spread (state w) (own_props v)),
       timers := [(next_timer w, now w + SAVE_COOLDOWN_TIME)],
       next_timer := Suc (next_timer w),
       save_cooldown := Some (next_timer w)\<rparr>"
proof (cases "save_cooldown w")
  case None
  with assms(1) have "timers w = []"
    by (cases "timers w") (auto simp: world_inv_def)
  with None assms(2) show ?thesis
    by (simp add: apply_values_def save_def reload_returns emit_def setTimeout_def)
next
  case (Some h)
  with assms(1) have "filter (\<lambda>(i, due). i \<noteq> h) (timers w) = []"
    by (auto simp: world_inv_def filter_empty_conv)
  moreover from Some assms(1) have "h = 0 \<Longrightarrow> timers w = []"
    by (cases "timers w") (auto simp: world_inv_def)
  ultimately show ?thesis using Some assms(2)
    by (simp add: apply_values_def save_def reload_returns emit_def setTimeout_def
        clearTimeout_def)
qed

text \<open>
  One call of \<^verbatim>\<open>apply\<close> whose render pass throws: the state is assigned, the pass stops
  at the throw, and \<^verbatim>\<open>save_\<close> is not reached, so the timers are as before.
\<close>

lemma apply_values_throws:
  assumes "\<not> renders (spread (state w) (own_props v))"
  shows "apply_values v w =
     w\<lparr>state := spread (state w) (own_props v),
       effects := effects w @ reload_events (spread (state w) (own_props v))\<rparr>"
  using assms by (simp add: apply_values_def reload_throws emit_def)

lemma advance_early:
  assumes "timers w = [(i, due)]" and "now w + d < due"
  shows "advance d w = w\<lparr>now := now w + d\<rparr>"
  using assms by (simp add: advance_def)

lemma advance_fire:
  assumes "timers w = [(i, due)]" and "due \<le> now w + d"
  shows "advance d w = commit_save (w\<lparr>now := now w + d, timers := []\<rparr>)"
  using assms by (simp add: advance_def)

lemma fold_commit_save:
  "fold (\<lambda>_. commit_save) xs w =
     w\<lparr>effects := effects w @ replicate (length xs)
        (FsWrite PUTER_THEME_DATA_FILENAME
           (JSON_stringify (JObj [(''colors'', JObj (state w))]) 5))\<rparr>"
proof (induction xs arbitrary: w)
  case Nil
  then show ?case by simp
next
  case (Cons x xs)
  show ?case
    by (simp add: Cons.IH) (simp add: commit_save_def emit_def replicate_app_Cons_same)
qed

lemma world_inv_apply_values: "world_inv w \<Longrightarrow> world_inv (apply_values v w)"
proof (cases "renders (spread (state w) (own_props v))")
  case True
  assume "world_inv w"
  with True show ?thesis
    by (simp add: apply_values_step) (simp add: world_inv_def)
next
  case False
  assume "world_inv w"
  with False show ?thesis
    by (simp add: apply_values_throws) (simp add: world_inv_def)
qed

lemma reset_world:
  "reset w =
     w\<lparr>state := default_values,
       effects := effects w @ reload_events default_values @
         [FsDelete PUTER_THEME_DATA_FILENAME]\<rparr>"
  by (simp add: reset_def reload_returns renders_default_values emit_def)

lemma world_inv_reset: "world_inv w \<Longrightarrow> world_inv (reset w)"
  by (simp add: reset_world world_inv_def)

lemma world_inv_advance: "world_inv w \<Longrightarrow> world_inv (advance d w)"
  by (auto simp: advance_def Let_def fold_commit_save world_inv_def)

text \<open>Every world that the service can be in satisfies the invariant.\<close>

lemma reachable_world_inv: "reachable w \<Longrightarrow> world_inv w"
  by (induction rule: reachable.induct)
    (simp_all add: world_inv_init world_inv_apply_values world_inv_reset world_inv_advance)

subsection \<open>Merging and resetting\<close>

lemma state_save: "state (save w) = state w"
  by (simp add: save_def setTimeout_def clearTimeout_def Let_def split: option.splits)

lemma state_apply_values: "state (apply_values v w) = spread (state w) (own_props v)"
  by (simp add: apply_values_def reload_def state_save emit_def)

text \<open>
  C5. For every prior state, after \<^verbatim>\<open>apply({hue: 120})\<close> the call \<^verbatim>\<open>get('hue')\<close> returns
  120 and \<^verbatim>\<open>get\<close> of every other key returns what it returned before: the update is
  merged field by field, the descriptor is not replaced.
\<close>

theorem apply_hue_round_trip:
  "get ''hue'' (apply_values (JObj [(''hue'', JNum 120)]) w) = JNum 120 \<and>
   (key \<noteq> ''hue'' \<longrightarrow>
      get key (apply_values (JObj [(''hue'', JNum 120)]) w) = get key w)"
  by (simp add: get_def state_apply_values own_props_def field_spread_single)

text \<open>On the world after \<^verbatim>\<open>_init\<close> with no theme file: alpha and the text flag stay.\<close>

theorem apply_hue_round_trip_witness:
  "get ''hue'' (apply_values (JObj [(''hue'', JNum 120)]) fresh_world) = JNum 120 \<and>
   get ''alpha'' (apply_values (JObj [(''hue'', JNum 120)]) fresh_world) = JNum 0.8 \<and>
   get ''light_text'' (apply_values (JObj [(''hue'', JNum 120)]) fresh_world) = JBool False"
  using apply_hue_round_trip [where key = "''alpha''" and w = fresh_world]
    apply_hue_round_trip [where key = "''light_text''" and w = fresh_world]
  by (simp add: get_def state_fresh_world default_values_def field_def)

text \<open>
  C4. After \<^verbatim>\<open>reset()\<close> the descriptor is the compiled-in default, field by field (so
  \<^verbatim>\<open>get('alpha')\<close> returns 0.8); the effects of the call are a render pass on the
  defaults followed by the deletion of the persisted record, issued by the call itself: no
  timer is set or cleared, the debounced save is not involved.
\<close>

theorem reset_restores_defaults:
  "state (reset w) = default_values \<and>
   get ''sat'' (reset w) = JNum 41.18 \<and> get ''hue'' (reset w) = JNum 210 \<and>
   get ''lig'' (reset w) = JNum 93.33 \<and> get ''alpha'' (reset w) = JNum 0.8 \<and>
   get ''light_text'' (reset w) = JBool False \<and>
   effects_since w (reset w) =
     reload_events default_values @ [FsDelete PUTER_THEME_DATA_FILENAME] \<and>
   timers (reset w) = timers w \<and> save_cooldown (reset w) = save_cooldown w"
  by (simp add: reset_world effects_since_def get_def) (simp add: field_def default_values_def)

subsection \<open>Initialization\<close>

text \<open>
  C1, as the code has it. When the persisted text is not empty and parses, only a
  \<^verbatim>\<open>colors\<close> member of the parsed value is merged: if it is an object, its fields replace
  those of the default descriptor field by field and every field it lacks keeps its
  default; if the parsed value has no truthy \<^verbatim>\<open>colors\<close> member, as a descriptor at the
  top level, the descriptor stays the default.
\<close>

theorem init_merges_colors:
  assumes "read_result = Inr (Str s) \<or> read_result = Inr (Blob (Inr s))" and "s \<noteq> []"
    and "JSON_parse s = Inr data"
  shows "(member data ''colors'' = JObj cs \<and> distinct (map fst cs) \<longrightarrow>
            state (init JSON_parse read_result) = spread default_values cs \<and>
            get key (init JSON_parse read_result) =
              (case map_of cs key of Some v \<Rightarrow> v | None \<Rightarrow> field default_values key)) \<and>
         (\<not> truthy (member data ''colors'') \<longrightarrow>
            state (init JSON_parse read_result) = default_values)"
proof -
  have "truthy data" if "member data ''colors'' = JObj cs"
    using that by (cases data) (simp_all add: member_def)
  then show ?thesis
    by (simp add: init_parsed [where JSON_parse = JSON_parse and s = s, OF assms]
        Let_def get_def own_props_def field_spread)
qed

text \<open>
  A persisted \<^verbatim>\<open>colors\<close> object with the hue alone changes the hue and keeps the other
  defaults; a persisted object without \<^verbatim>\<open>colors\<close> changes nothing.
\<close>

theorem init_merges_colors_witness:
  \<open>state (init (\<lambda>s. Inr (JObj [(''colors'', JObj [(''hue'', JNum 120)])]))
            (Inr (Str ''{"colors":{"hue":120}}''))) =
     [(''sat'', JNum 41.18), (''hue'', JNum 120), (''lig'', JNum 93.33),
      (''alpha'', JNum 0.8), (''light_text'', JBool False)] \<and>
   get ''alpha'' (init (\<lambda>s. Inr (JObj [(''colors'', JObj [(''hue'', JNum 120)])]))
            (Inr (Str ''{"colors":{"hue":120}}''))) = JNum 0.8 \<and>
   state (init (\<lambda>s. Inr (JObj [(''hue'', JNum 120)])) (Inr (Str ''{"hue":120}''))) =
     default_values\<close>
  using
    init_merges_colors [of \<open>Inr (Str ''{"colors":{"hue":120}}'')\<close> \<open>''{"colors":{"hue":120}}''\<close>
      \<open>\<lambda>s. Inr (JObj [(''colors'', JObj [(''hue'', JNum 120)])])\<close>
      \<open>JObj [(''colors'', JObj [(''hue'', JNum 120)])]\<close> \<open>[(''hue'', JNum 120)]\<close> \<open>''alpha''\<close>]
    init_merges_colors [of \<open>Inr (Str ''{"hue":120}'')\<close> \<open>''{"hue":120}''\<close>
      \<open>\<lambda>s. Inr (JObj [(''hue'', JNum 120)])\<close> \<open>JObj [(''hue'', JNum 120)]\<close> \<open>[]\<close> \<open>''alpha''\<close>]
  by (simp add: member_def field_def spread_single_no_index is_digit_def default_values_def)

text \<open>
  C1 as stated fails for a valid descriptor at the top level: its fields are not merged.
  With a persisted text that parses to a complete descriptor of hue 120, the hue after
  \<^verbatim>\<open>_init\<close> is the default 210.
\<close>

theorem init_ignores_top_level_descriptor:
  \<open>get ''hue''
     (init
        (\<lambda>s. if s = ''{"sat":50,"hue":120,"lig":50,"alpha":1,"light_text":true}''
              then Inr (JObj [(''sat'', JNum 50), (''hue'', JNum 120), (''lig'', JNum 50),
                              (''alpha'', JNum 1), (''light_text'', JBool True)])
              else Inl (Error None ''Unexpected token''))
        (Inr (Str ''{"sat":50,"hue":120,"lig":50,"alpha":1,"light_text":true}''))) = JNum 210 \<and>
   JNum 210 \<noteq> JNum 120\<close>
  by (simp add: init_def Let_def get_def field_def member_def reload_world emit_def)

text \<open>
  The paths of \<^verbatim>\<open>_init\<close> that handle an error as intended. When the persisted text is
  not empty and \<^verbatim>\<open>JSON.parse\<close> throws, the descriptor is the default, the effects of
  \<^verbatim>\<open>_init\<close> are the logged error, one alert whose message ends with the message of the
  parse error, and the render pass on the defaults. When the read rejects with the code
  \<^verbatim>\<open>subject_does_not_exist\<close>, the only effects are the render pass on the defaults. When
  the read rejects with any other error, that error is logged, no alert is raised, and the
  render pass on the defaults follows.
\<close>

lemma init_error_handling:
  \<open>((read_result = Inr (Str s) \<or> read_result = Inr (Blob (Inr s))) \<and> s \<noteq> [] \<and>
      JSON_parse s = Inl e \<longrightarrow>
      state (init JSON_parse read_result) = default_values \<and>
      effects (init JSON_parse read_result) =
        [ConsoleError e,
         UIAlert ''Error loading theme data''
           (''Could not parse "~/.__puter_gui.json": '' @ message e)] @
        reload_events default_values \<and>
      length (filter is_alert (effects (init JSON_parse read_result))) = 1) \<and>
    (code e' = Some ''subject_does_not_exist'' \<longrightarrow>
      state (init JSON_parse (Inl e')) = default_values \<and>
      effects (init JSON_parse (Inl e')) = reload_events default_values) \<and>
    (code e' \<noteq> Some ''subject_does_not_exist'' \<longrightarrow>
      state (init JSON_parse (Inl e')) = default_values \<and>
      effects (init JSON_parse (Inl e')) = ConsoleError e' # reload_events default_values \<and>
      filter is_alert (effects (init JSON_parse (Inl e'))) = [])\<close>
proof -
  have \<open>state (init JSON_parse read_result) = default_values \<and>
      effects (init JSON_parse read_result) =
        [ConsoleError e,
         UIAlert ''Error loading theme data''
           (''Could not parse "~/.__puter_gui.json": '' @ message e)] @
        reload_events default_values \<and>
      length (filter is_alert (effects (init JSON_parse read_result))) = 1\<close>
    if "read_result = Inr (Str s) \<or> read_result = Inr (Blob (Inr s))" "s \<noteq> []"
      "JSON_parse s = Inl e"
    by (simp add: init_parse_failed [where JSON_parse = JSON_parse and s = s, OF that]
        parse_alert_def PUTER_THEME_DATA_FILENAME_def reload_events_no_alert)
  then show ?thesis
    by (simp add: init_read_rejected read_catch_def reload_events_no_alert)
qed

text \<open>
  The malformed text \<^verbatim>\<open>{not json\<close>, a read that rejects as not found, and a read that
  rejects as forbidden.
\<close>

lemma init_error_handling_at_not_json:
  \<open>effects (init (\<lambda>s. Inl (Error None ''Unexpected token n in JSON at position 1''))
       (Inr (Str ''{not json''))) =
     [ConsoleError (Error None ''Unexpected token n in JSON at position 1''),
      UIAlert ''Error loading theme data''
        ''Could not parse "~/.__puter_gui.json": Unexpected token n in JSON at position 1''] @
     reload_events default_values \<and>
   state (init (\<lambda>s. Inl (Error None ''Unexpected token n in JSON at position 1''))
       (Inr (Str ''{not json''))) = default_values \<and>
   effects (init (\<lambda>s. Inl (Error None ''Unexpected token n in JSON at position 1''))
       (Inl (Error (Some ''subject_does_not_exist'') ''gone''))) =
     reload_events default_values \<and>
   effects (init (\<lambda>s. Inl (Error None ''Unexpected token n in JSON at position 1''))
       (Inl (Error (Some ''forbidden'') ''denied''))) =
     ConsoleError (Error (Some ''forbidden'') ''denied'') # reload_events default_values\<close>
  using
    init_error_handling [of "Inr (Str ''{not json'')" "''{not json''"
      "\<lambda>s. Inl (Error None ''Unexpected token n in JSON at position 1'')"
      "Error None ''Unexpected token n in JSON at position 1''"
      "Error (Some ''subject_does_not_exist'') ''gone''"]
    init_error_handling [of "Inr (Str ''{not json'')" "''{not json''"
      "\<lambda>s. Inl (Error None ''Unexpected token n in JSON at position 1'')"
      "Error None ''Unexpected token n in JSON at position 1''"
      "Error (Some ''forbidden'') ''denied''"]
  by simp

text \<open>
  C7. A read failure other than not-found is to be logged without an alert. The code does
  so when the read itself rejects, but not when the read resolves to a Blob whose
  \<^verbatim>\<open>text()\<close> rejects, in the same \<^verbatim>\<open>try\<close>: the error is logged, \<^verbatim>\<open>data\<close> is still the
  Blob, its string form \<^verbatim>\<open>[object Blob]\<close> fails to parse, and the alert is raised.
\<close>

theorem init_alerts_after_text_rejected:
  \<open>effects
     (init (\<lambda>s. if s = ''[object Blob]''
                 then Inl (Error None ''Unexpected token o in JSON at position 1'')
                 else Inr JNull)
        (Inr (Blob (Inl (Error None ''The blob could not be read''))))) =
     [ConsoleError (Error None ''The blob could not be read''),
      ConsoleError (Error None ''Unexpected token o in JSON at position 1''),
      UIAlert ''Error loading theme data''
        ''Could not parse "~/.__puter_gui.json": Unexpected token o in JSON at position 1''] @
     reload_events default_values \<and>
   length (filter is_alert (effects
     (init (\<lambda>s. if s = ''[object Blob]''
                 then Inl (Error None ''Unexpected token o in JSON at position 1'')
                 else Inr JNull)
        (Inr (Blob (Inl (Error None ''The blob could not be read''))))))) = 1\<close>
  by (simp add: init_def Let_def reload_world emit_def default_values_def read_catch_def
      parse_alert_def PUTER_THEME_DATA_FILENAME_def reload_events_no_alert)

subsection \<open>The debounced save\<close>

text \<open>
  C2. From a world that satisfies the invariant of the timers, two calls of \<^verbatim>\<open>apply\<close>
  whose render passes return, the second less than \<open>SAVE_COOLDOWN_TIME\<close> after the first,
  followed by at least \<open>SAVE_COOLDOWN_TIME\<close> without a call: exactly one write is issued,
  and its content is the serialization of \<^verbatim>\<open>{ colors: state }\<close> for the state after the
  second merge. The timer of the first call is pending until the second call, which
  replaces it by its own; nothing is pending at the end.
\<close>

theorem debounce_two_applies:
  assumes "world_inv w" and "d < SAVE_COOLDOWN_TIME" and "SAVE_COOLDOWN_TIME \<le> d'"
    and "renders (spread (state w) (own_props v1))"
    and "renders (spread (spread (state w) (own_props v1)) (own_props v2))"
  shows "let s1 = spread (state w) (own_props v1);
             s2 = spread s1 (own_props v2);
             w1 = advance d (apply_values v1 w);
             w2 = apply_values v2 w1;
             w3 = advance d' w2;
             content = JSON_stringify (JObj [(''colors'', JObj s2)]) 5
         in filter is_write (effects_since w w3) =
              [FsWrite PUTER_THEME_DATA_FILENAME content] \<and>
            timers w1 = [(next_timer w, now w + SAVE_COOLDOWN_TIME)] \<and>
            timers w2 = [(Suc (next_timer w), now w + d + SAVE_COOLDOWN_TIME)] \<and>
            timers w3 = [] \<and> state w3 = s2"
proof -
  define s1 where "s1 = spread (state w) (own_props v1)"
  define s2 where "s2 = spread s1 (own_props v2)"
  define a1 where "a1 = apply_values v1 w"
  define w1 where "w1 = advance d a1"
  define w2 where "w2 = apply_values v2 w1"
  define w3 where "w3 = advance d' w2"
  have r1: "renders s1" and r2: "renders s2"
    using assms(4,5) by (simp_all add: s1_def s2_def)
  have a1: "a1 = w\<lparr>state := s1, effects := effects w @ reload_events s1,
       timers := [(next_timer w, now w + SAVE_COOLDOWN_TIME)],
       next_timer := Suc (next_timer w), save_cooldown := Some (next_timer w)\<rparr>"
    unfolding a1_def s1_def by (rule apply_values_step [OF assms(1) assms(4)])
  have w1: "w1 = a1\<lparr>now := now w + d\<rparr>"
    unfolding w1_def using assms(2)
    by (subst advance_early [where i = "next_timer w" and due = "now w + SAVE_COOLDOWN_TIME"])
      (simp_all add: a1)
  have inv1: "world_inv w1"
    using assms(1) by (simp add: w1 a1 world_inv_def)
  have st1: "state w1 = s1"
    by (simp add: w1 a1)
  have w2: "w2 = w1\<lparr>state := s2, effects := effects w1 @ reload_events s2,
       timers := [(next_timer w1, now w1 + SAVE_COOLDOWN_TIME)],
       next_timer := Suc (next_timer w1), save_cooldown := Some (next_timer w1)\<rparr>"
    unfolding w2_def using apply_values_step [OF inv1, of v2] r2
    by (simp add: st1 s2_def)
  have w3: "w3 = commit_save (w2\<lparr>now := now w2 + d', timers := []\<rparr>)"
    unfolding w3_def using assms(3)
    by (subst advance_fire [where i = "next_timer w1" and due = "now w1 + SAVE_COOLDOWN_TIME"])
      (simp_all add: w2)
  have eff: "effects w3 = effects w @ reload_events s1 @ reload_events s2 @
      [FsWrite PUTER_THEME_DATA_FILENAME (JSON_stringify (JObj [(''colors'', JObj s2)]) 5)]"
    by (simp add: w3 w2 w1 a1 commit_save_def emit_def)
  have "filter is_write (effects_since w w3) =
      [FsWrite PUTER_THEME_DATA_FILENAME (JSON_stringify (JObj [(''colors'', JObj s2)]) 5)]"
    by (simp add: effects_since_def eff reload_events_no_write)
  moreover have "timers w1 = [(next_timer w, now w + SAVE_COOLDOWN_TIME)]"
    by (simp add: w1 a1)
  moreover have "timers w2 = [(Suc (next_timer w), now w + d + SAVE_COOLDOWN_TIME)]"
    by (simp add: w2 w1 a1)
  moreover have "timers w3 = []" "state w3 = s2"
    by (simp_all add: w3 w2 commit_save_def emit_def)
  ultimately show ?thesis
    unfolding Let_def s1_def [symmetric] s2_def [symmetric] a1_def [symmetric]
      w1_def [symmetric] w2_def [symmetric] w3_def [symmetric]
    by simp
qed

text \<open>
  After \<^verbatim>\<open>_init\<close> with no theme file: the hue is applied, the alpha 300 ms later, and
  1000 ms later the one write carries both.
\<close>

theorem debounce_two_applies_witness:
  "world_inv fresh_world \<and> (300::nat) < SAVE_COOLDOWN_TIME \<and>
   SAVE_COOLDOWN_TIME \<le> (1000::nat) \<and>
   renders (spread (state fresh_world) (own_props (JObj [(''hue'', JNum 120)]))) \<and>
   renders (spread (spread (state fresh_world) (own_props (JObj [(''hue'', JNum 120)])))
     (own_props (JObj [(''alpha'', JNum 0.5)]))) \<and>
   filter is_write (effects_since fresh_world
     (advance 1000 (apply_values (JObj [(''alpha'', JNum 0.5)])
        (advance 300 (apply_values (JObj [(''hue'', JNum 120)]) fresh_world))))) =
     [FsWrite ''~/.__puter_gui.json'' (JSON_stringify (JObj [(''colors'', JObj
        [(''sat'', JNum 41.18), (''hue'', JNum 120), (''lig'', JNum 93.33),
         (''alpha'', JNum 0.5), (''light_text'', JBool False)])]) 5)]"
proof -
  have lt: "(300::nat) < SAVE_COOLDOWN_TIME" and le: "SAVE_COOLDOWN_TIME \<le> (1000::nat)"
    by (simp_all add: SAVE_COOLDOWN_TIME_def)
  have s1: "spread (state fresh_world) (own_props (JObj [(''hue'', JNum 120)])) =
      [(''sat'', JNum 41.18), (''hue'', JNum 120), (''lig'', JNum 93.33),
       (''alpha'', JNum 0.8), (''light_text'', JBool False)]"
    by (simp add: state_fresh_world default_values_def own_props_def spread_single_no_index
        is_digit_def)
  have s2: "spread (spread (state fresh_world) (own_props (JObj [(''hue'', JNum 120)])))
       (own_props (JObj [(''alpha'', JNum 0.5)])) =
      [(''sat'', JNum 41.18), (''hue'', JNum 120), (''lig'', JNum 93.33),
       (''alpha'', JNum 0.5), (''light_text'', JBool False)]"
    by (simp only: s1) (simp add: own_props_def spread_single_no_index is_digit_def)
  have r1: "renders (spread (state fresh_world) (own_props (JObj [(''hue'', JNum 120)])))"
    by (simp only: s1) (simp add: renders_def field_def)
  have r2: "renders (spread (spread (state fresh_world)
       (own_props (JObj [(''hue'', JNum 120)]))) (own_props (JObj [(''alpha'', JNum 0.5)])))"
    by (simp only: s2) (simp add: renders_def field_def)
  from debounce_two_applies [OF world_inv_fresh_world lt le r1 r2]
  show ?thesis using world_inv_fresh_world lt le r1 r2 s2
    by (simp add: Let_def PUTER_THEME_DATA_FILENAME_def)
qed

text \<open>
  C3. From a world that satisfies the invariant of the timers, \<^verbatim>\<open>apply\<close>, whose render
  pass returns, and then \<^verbatim>\<open>reset\<close> before the save delay of the \<^verbatim>\<open>apply\<close> has passed:
  \<^verbatim>\<open>reset\<close> leaves the pending timer in place; its own effects are the render pass on the
  defaults and the deletion of the persisted record, after which no record is persisted.
  When the delay has passed, the timer fires and writes the serialization of the state of
  that moment, the defaults, so the record is persisted again.
\<close>

theorem reset_keeps_pending_save:
  assumes "world_inv w" and "d < SAVE_COOLDOWN_TIME" and "SAVE_COOLDOWN_TIME \<le> d + d'"
    and "renders (spread (state w) (own_props v))"
  shows "let w1 = advance d (apply_values v w);
             w2 = reset w1;
             w3 = advance d' w2;
             content = JSON_stringify (JObj [(''colors'', JObj default_values)]) 5
         in timers w1 = [(next_timer w, now w + SAVE_COOLDOWN_TIME)] \<and>
            timers w2 = timers w1 \<and>
            effects_since w1 w2 =
              reload_events default_values @ [FsDelete PUTER_THEME_DATA_FILENAME] \<and>
            effects_since w2 w3 = [FsWrite PUTER_THEME_DATA_FILENAME content] \<and>
            persisted (effects_since w1 w2) rec = None \<and>
            persisted (effects_since w1 w3) rec = Some content"
proof -
  define a1 where "a1 = apply_values v w"
  define w1 where "w1 = advance d a1"
  define w2 where "w2 = reset w1"
  define w3 where "w3 = advance d' w2"
  define s1 where "s1 = spread (state w) (own_props v)"
  have a1: "a1 = w\<lparr>state := s1, effects := effects w @ reload_events s1,
       timers := [(next_timer w, now w + SAVE_COOLDOWN_TIME)],
       next_timer := Suc (next_timer w), save_cooldown := Some (next_timer w)\<rparr>"
    unfolding a1_def s1_def by (rule apply_values_step [OF assms(1) assms(4)])
  have w1: "w1 = a1\<lparr>now := now w + d\<rparr>"
    unfolding w1_def using assms(2)
    by (subst advance_early [where i = "next_timer w" and due = "now w + SAVE_COOLDOWN_TIME"])
      (simp_all add: a1)
  have w2: "w2 = w1\<lparr>state := default_values,
       effects := effects w1 @ reload_events default_values @
         [FsDelete PUTER_THEME_DATA_FILENAME]\<rparr>"
    by (simp add: w2_def reset_world)
  have w3: "w3 = commit_save (w2\<lparr>now := now w2 + d', timers := []\<rparr>)"
    unfolding w3_def using assms(3)
    by (subst advance_fire [where i = "next_timer w" and due = "now w + SAVE_COOLDOWN_TIME"])
      (simp_all add: w2 w1 a1)
  have t1: "timers w1 = [(next_timer w, now w + SAVE_COOLDOWN_TIME)]"
    by (simp add: w1 a1)
  have t2: "timers w2 = timers w1"
    by (simp add: w2)
  have e2: "effects_since w1 w2 =
      reload_events default_values @ [FsDelete PUTER_THEME_DATA_FILENAME]"
    by (simp add: effects_since_def w2)
  have e3: "effects_since w2 w3 = [FsWrite PUTER_THEME_DATA_FILENAME
      (JSON_stringify (JObj [(''colors'', JObj default_values)]) 5)]"
    by (simp add: effects_since_def w3 commit_save_def emit_def) (simp add: w2)
  have e13: "effects_since w1 w3 = effects_since w1 w2 @ effects_since w2 w3"
    by (simp add: effects_since_def w3 commit_save_def emit_def) (simp add: w2)
  have p2: "persisted (effects_since w1 w2) rec = None"
    by (simp add: e2 persisted_append persisted_reload_events) (simp add: persisted_def)
  have p3: "persisted (effects_since w1 w3) rec =
      Some (JSON_stringify (JObj [(''colors'', JObj default_values)]) 5)"
    by (simp add: e13 persisted_append p2) (simp add: e3 persisted_def)
  show ?thesis
    unfolding Let_def a1_def [symmetric] w1_def [symmetric] w2_def [symmetric]
      w3_def [symmetric]
    using t1 t2 e2 e3 p2 p3 by simp
qed

text \<open>
  After \<^verbatim>\<open>_init\<close> with no theme file: the hue is applied, \<^verbatim>\<open>reset\<close> is called 400 ms
  later and leaves the timer of handle 1, due at 1000; 600 ms later the defaults are
  persisted.
\<close>

theorem reset_keeps_pending_save_witness:
  "world_inv fresh_world \<and> (400::nat) < SAVE_COOLDOWN_TIME \<and>
   SAVE_COOLDOWN_TIME \<le> (400::nat) + 600 \<and>
   renders (spread (state fresh_world) (own_props (JObj [(''hue'', JNum 120)]))) \<and>
   timers (reset (advance 400 (apply_values (JObj [(''hue'', JNum 120)]) fresh_world))) =
     [(1, 1000)] \<and>
   persisted
     (effects_since (advance 400 (apply_values (JObj [(''hue'', JNum 120)]) fresh_world))
        (advance 600
           (reset (advance 400 (apply_values (JObj [(''hue'', JNum 120)]) fresh_world)))))
     None =
     Some (JSON_stringify (JObj [(''colors'', JObj
        [(''sat'', JNum 41.18), (''hue'', JNum 210), (''lig'', JNum 93.33),
         (''alpha'', JNum 0.8), (''light_text'', JBool False)])]) 5)"
proof -
  have lt: "(400::nat) < SAVE_COOLDOWN_TIME"
    and le: "SAVE_COOLDOWN_TIME \<le> (400::nat) + 600"
    by (simp_all add: SAVE_COOLDOWN_TIME_def)
  have nt: "next_timer fresh_world = 1" "now fresh_world = 0"
    by (simp_all add: fresh_world_def init_read_rejected)
  have r1: "renders (spread (state fresh_world) (own_props (JObj [(''hue'', JNum 120)])))"
    by (simp add: state_fresh_world default_values_def own_props_def spread_single_no_index
        is_digit_def renders_def field_def)
  from reset_keeps_pending_save [OF world_inv_fresh_world lt le r1, of None]
  show ?thesis using world_inv_fresh_world lt le r1
    by (simp add: Let_def nt default_values_def SAVE_COOLDOWN_TIME_def)
qed

end
